theory Spec2Isabelle
  imports Complex_Main "HOL-Library.Word"
begin

section \<open>The data model of app.py\<close>

text \<open>
  The service keeps two tables in one SQLite file. A table is the list of its rows in
  insertion order, each column holding the value that SQLite gives back for it. The
  type \<open>'f\<close> is a Python float and \<open>'j\<close> a decoded JSON value other than \<open>None\<close>;
  the handlers only store them and hand them back. A \<open>datetime\<close> is the reading of
  the clock at the request; the handlers never compute with it. Strings are lists of
  characters with code points below 256.
\<close>

type_synonym datetime = nat

text \<open>
  An \<open>INTEGER\<close> of SQLite is a signed 64-bit integer: \<open>sint\<close> reads it as the Python
  integer.
\<close>

type_synonym rowid = "64 word"

text \<open>\<open>UserModel\<close>: the columns id, username, password, created_at.\<close>

record user =
  u_id :: rowid
  u_username :: string
  u_password :: string
  u_created_at :: datetime

text \<open>\<open>DataCaptureModel\<close>: a column that is not \<open>nullable=False\<close> may hold \<open>None\<close>.\<close>

record ('f, 'j) capture =
  c_id :: rowid
  c_user_id :: rowid
  c_latitude :: "'f option"
  c_longitude :: "'f option"
  c_isp :: string
  c_os :: string
  c_keystroke_dynamics :: "string option"
  c_mouse_movement_patterns :: "string option"
  c_touch_interaction_patterns :: "'j option"
  c_sensor_data :: "'j option"
  c_created_at :: datetime

record ('f, 'j) db =
  users :: "user list"
  captures :: "('f, 'j) capture list"

text \<open>
  The primary key of a new row. Both id columns are \<open>INTEGER PRIMARY KEY\<close> columns of
  SQLite, which numbers an empty table from 1 and otherwise takes one more than the
  largest key in use. (At the largest key of 64 bits SQLite tries unused keys at
  random; no run of the service gets there, and this model wraps around.)
\<close>

definition next_id :: "rowid list \<Rightarrow> rowid" where
  "next_id ids = (if ids = [] then 1 else word_of_int (Max (set (map sint ids)) + 1))"

section \<open>Requests and responses\<close>

text \<open>
  The body of a request to \<open>/api/register\<close> and \<open>/api/login\<close>, as \<open>user_args\<close> reads
  it: \<open>None\<close> is a field the client did not send.
\<close>

record user_args =
  username :: "string option"
  password :: "string option"

text \<open>
  The body of a request to \<open>data_capture\<close>, as \<open>data_capture_args\<close> reads it. For
  latitude and longitude \<open>None\<close> is also a value that \<open>float\<close> refuses.
\<close>

record 'f data_capture_args =
  latitude :: "'f option"
  longitude :: "'f option"
  isp :: "string option"
  os :: "string option"
  keystroke_dynamics :: "string option"
  mouse_movement_patterns :: "string option"
  touch_interaction_patterns :: "string option"
  sensor_data :: "string option"

text \<open>
  The message of an \<open>abort\<close>: the text the handler gives, or the error of the request
  parser for an argument (its name and the \<open>help\<close> text of its declaration, if any).
\<close>

datatype message = Message string | Argument_error string "string option"

text \<open>The exceptions that leave a handler and are no HTTP exceptions.\<close>

datatype exn = JSONDecodeError | OverflowError

text \<open>
  What the handlers take from Python and SQLite without computing it themselves:
  \<^item> \<open>json_loads s\<close> is \<open>json.loads(s)\<close>: \<open>None\<close> when it raises
    \<open>JSONDecodeError\<close>, otherwise the decoded value, which is \<open>None\<close> for the
    text \<open>null\<close>;
  \<^item> \<open>py_str v\<close> is \<open>str(v)\<close> of a decoded value;
  \<^item> \<open>sqlite_real x\<close> is what a \<open>Float\<close> column gives back after \<open>x\<close> was stored
    in it: \<open>None\<close> (NULL) for a NaN;
  \<^item> \<open>sqlite_json v\<close> is what a \<open>JSON\<close> column gives back after \<open>v\<close> was stored
    in it.
\<close>

record ('f, 'j) platform =
  json_loads :: "string \<Rightarrow> 'j option option"
  py_str :: "'j \<Rightarrow> string"
  sqlite_real :: "'f \<Rightarrow> 'f option"
  sqlite_json :: "'j option \<Rightarrow> 'j option"

text \<open>
  A marshalled field. \<open>VRfc822 t\<close> is the default format of \<open>fields.DateTime\<close> and
  \<open>VIso t\<close> is \<open>t.isoformat()\<close>.
\<close>

datatype 'f jvalue =
  VNull | VInt int | VFloat 'f | VString string | VRfc822 datetime | VIso datetime

datatype 'f body =
  Obj "(string \<times> 'f jvalue) list" | Arr "(string \<times> 'f jvalue) list list"

text \<open>
  How a handler ends: it returns a body and a status, it calls \<open>abort\<close>, or an
  exception that is no HTTP exception leaves it.
\<close>

datatype 'f outcome = Reply "'f body" nat | Abort nat message | Raised exn

text \<open>The HTTP status of the response. Flask answers an unhandled exception with 500.\<close>

fun status :: "'f outcome \<Rightarrow> nat" where
  "status (Reply b s) = s"
| "status (Abort s m) = s"
| "status (Raised e) = 500"

text \<open>A field of a returned object.\<close>

fun field :: "string \<Rightarrow> 'f outcome \<Rightarrow> 'f jvalue option" where
  "field k (Reply (Obj kvs) s) = map_of kvs k"
| "field k r = None"

text \<open>\<open>fields.String\<close> and \<open>fields.Float\<close>: \<open>None\<close> is marshalled as null.\<close>

fun opt_string :: "string option \<Rightarrow> 'f jvalue" where
  "opt_string None = VNull"
| "opt_string (Some s) = VString s"

fun opt_float :: "'f option \<Rightarrow> 'f jvalue" where
  "opt_float None = VNull"
| "opt_float (Some x) = VFloat x"

text \<open>\<open>marshal_with(user_fields)\<close> and \<open>marshal_with(data_capture_fields)\<close>.\<close>

definition marshal_user :: "user \<Rightarrow> (string \<times> 'f jvalue) list" where
  "marshal_user u =
     [(''id'', VInt (sint (u_id u))),
      (''username'', VString (u_username u)),
      (''password'', VString (u_password u)),
      (''created_at'', VRfc822 (u_created_at u))]"

definition marshal_capture ::
  "('f, 'j) platform \<Rightarrow> ('f, 'j) capture \<Rightarrow> (string \<times> 'f jvalue) list" where
  "marshal_capture py c =
     [(''id'', VInt (sint (c_id c))),
      (''user_id'', VInt (sint (c_user_id c))),
      (''latitude'', opt_float (c_latitude c)),
      (''longitude'', opt_float (c_longitude c)),
      (''isp'', VString (c_isp c)),
      (''os'', VString (c_os c)),
      (''keystroke_dynamics'', opt_string (c_keystroke_dynamics c)),
      (''mouse_movement_patterns'', opt_string (c_mouse_movement_patterns c)),
      (''touch_interaction_patterns'',
         opt_string (map_option (py_str py) (c_touch_interaction_patterns c))),
      (''sensor_data'', opt_string (map_option (py_str py) (c_sensor_data c))),
      (''created_at'', VRfc822 (c_created_at c))]"

section \<open>The password policy\<close>

text \<open>
  \<open>is_valid_password\<close> matches the password against
  \<^verbatim>\<open>^(?=.*[A-Za-z])(?=.*\d)(?=.*[@$!%*?&])[A-Za-z\d@$!%*?&]{8,}$\<close>
  with \<open>re.match\<close> and no flags. The character classes: on code points below 256
  \<^verbatim>\<open>\d\<close> is one of 0 to 9.
\<close>

definition letter :: "char \<Rightarrow> bool" where
  "letter c = (let n = (of_char c :: nat) in (65 \<le> n \<and> n \<le> 90) \<or> (97 \<le> n \<and> n \<le> 122))"

definition digit :: "char \<Rightarrow> bool" where
  "digit c = (let n = (of_char c :: nat) in 48 \<le> n \<and> n \<le> 57)"

definition symbol :: "char \<Rightarrow> bool" where
  "symbol c = (c \<in> set ''@$!%*?&'')"

definition allowed :: "char \<Rightarrow> bool" where
  "allowed c = (letter c \<or> digit c \<or> symbol c)"

definition newline :: char where
  "newline = CHR 0x0A"

text \<open>
  A lookahead \<^verbatim>\<open>(?=.*[...])\<close> at the start of the string: without \<open>re.DOTALL\<close> the
  dot matches every character but a line feed, so the class must be met before the
  first line feed.
\<close>

definition lookahead :: "(char \<Rightarrow> bool) \<Rightarrow> string \<Rightarrow> bool" where
  "lookahead cls s = list_ex cls (takeWhile (\<lambda>c. c \<noteq> newline) s)"

text \<open>
  The run \<^verbatim>\<open>[A-Za-z\d@$!%*?&]{8,}\<close> followed by \<^verbatim>\<open>$\<close>. Without \<open>re.MULTILINE\<close> the
  dollar matches at the end of the string and also just before a line feed that is the
  last character. A shorter run than the longest one stops before an allowed
  character, where the dollar cannot match, so the longest run decides.
\<close>

definition is_valid_password :: "string \<Rightarrow> bool" where
  "is_valid_password pw =
     (lookahead letter pw \<and> lookahead digit pw \<and> lookahead symbol pw \<and>
      (let rest = dropWhile allowed pw
       in 8 \<le> length (takeWhile allowed pw) \<and> (rest = [] \<or> rest = [newline])))"

text \<open>
  The policy in the words of the specification: at least 8 characters, at least one
  letter, one digit and one symbol of the fixed set, and no character outside these
  classes.
\<close>

definition password_policy :: "string \<Rightarrow> bool" where
  "password_policy pw =
     (8 \<le> length pw \<and> list_ex letter pw \<and> list_ex digit pw \<and> list_ex symbol pw \<and>
      list_all allowed pw)"

section \<open>The handlers\<close>

text \<open>
  \<open>user_args.parse_args()\<close>: both arguments are required, and the parser aborts with
  400 at the first one that is missing.
\<close>

definition user_args_parse :: "user_args \<Rightarrow> message + string \<times> string" where
  "user_args_parse args =
     (case username args of
        None \<Rightarrow> Inl (Argument_error ''username'' (Some ''Username is required''))
      | Some name \<Rightarrow>
          (case password args of
             None \<Rightarrow> Inl (Argument_error ''password'' (Some ''Password is required''))
           | Some pw \<Rightarrow> Inr (name, pw)))"

text \<open>\<open>RegisterUser.post\<close>. \<open>now\<close> is \<open>datetime.datetime.now(IST)\<close>.\<close>

definition RegisterUser_post ::
  "('f, 'j) db \<Rightarrow> datetime \<Rightarrow> user_args \<Rightarrow> 'f outcome \<times> ('f, 'j) db" where
  "RegisterUser_post d now args =
     (case user_args_parse args of
        Inl m \<Rightarrow> (Abort 400 m, d)
      | Inr (name, pw) \<Rightarrow>
          (case find (\<lambda>u. u_username u = name) (users d) of
             Some u \<Rightarrow> (Abort 409 (Message ''Username already exists''), d)
           | None \<Rightarrow>
               if \<not> is_valid_password pw then
                 (Abort 400 (Message ''Password must be at least 8 characters long, including at least one letter, one number, and one special character.''), d)
               else
                 (let user = \<lparr>u_id = next_id (map u_id (users d)), u_username = name,
                                u_password = pw, u_created_at = now\<rparr>
                  in (Reply (Obj (marshal_user user)) 201, d\<lparr>users := users d @ [user]\<rparr>))))"

text \<open>\<open>LoginUser.post\<close>.\<close>

definition LoginUser_post ::
  "('f, 'j) db \<Rightarrow> user_args \<Rightarrow> 'f outcome \<times> ('f, 'j) db" where
  "LoginUser_post d args =
     (case user_args_parse args of
        Inl m \<Rightarrow> (Abort 400 m, d)
      | Inr (name, pw) \<Rightarrow>
          (case find (\<lambda>u. u_username u = name \<and> u_password u = pw) (users d) of
             Some user \<Rightarrow>
               (Reply (Obj [(''id'', VInt (sint (u_id user))),
                            (''username'', VString (u_username user)),
                            (''createdAt'', VIso (u_created_at user))]) 200, d)
           | None \<Rightarrow> (Abort 401 (Message ''Invalid credentials''), d)))"

text \<open>
  \<open>UserModel.query.get(user_id)\<close>. The route \<open><int:user_id>\<close> passes every
  non-negative integer that the path spells, with no upper bound, and \<open>sqlite3\<close>
  refuses to bind a Python integer that does not fit a signed 64-bit \<open>INTEGER\<close>: the
  query then raises \<open>OverflowError\<close> instead of looking the user up.
\<close>

definition query_get :: "user list \<Rightarrow> int \<Rightarrow> exn + user option" where
  "query_get us user_id =
     (if user_id < - 9223372036854775808 \<or> 9223372036854775807 < user_id
      then Inl OverflowError
      else Inr (find (\<lambda>u. sint (u_id u) = user_id) us))"

text \<open>
  \<open>data_capture_args.parse_args()\<close>: latitude, longitude, isp and os are required, in
  this order; the other four arguments are optional and stay \<open>None\<close> when absent.
\<close>

definition data_capture_args_parse ::
  "'f data_capture_args \<Rightarrow> message + 'f \<times> 'f \<times> string \<times> string" where
  "data_capture_args_parse args =
     (case latitude args of
        None \<Rightarrow> Inl (Argument_error ''latitude'' (Some ''Latitude is required''))
      | Some lat \<Rightarrow>
     (case longitude args of
        None \<Rightarrow> Inl (Argument_error ''longitude'' (Some ''Longitude is required''))
      | Some lon \<Rightarrow>
     (case isp args of
        None \<Rightarrow> Inl (Argument_error ''isp'' None)
      | Some i \<Rightarrow>
     (case os args of
        None \<Rightarrow> Inl (Argument_error ''os'' None)
      | Some o_s \<Rightarrow> Inr (lat, lon, i, o_s)))))"

text \<open>
  Lines 126 to 132: an optional JSON argument is decoded when it is given and not the
  empty string (\<open>if args.get(...)\<close>); otherwise the variable stays \<open>None\<close>.
\<close>

definition decode_arg :: "('f, 'j) platform \<Rightarrow> string option \<Rightarrow> exn + 'j option" where
  "decode_arg py arg =
     (case arg of
        None \<Rightarrow> Inr None
      | Some s \<Rightarrow>
          if s = [] then Inr None
          else (case json_loads py s of None \<Rightarrow> Inl JSONDecodeError | Some v \<Rightarrow> Inr v))"

text \<open>
  \<open>DataCapture.post\<close>. \<open>now\<close> is \<open>datetime.datetime.utcnow()\<close>. The parser always puts
  the optional keys into \<open>args\<close>, so \<open>args.get('keystroke_dynamics', '')\<close> is the
  argument itself, \<open>None\<close> when it is absent. The commit expires the object, so the
  response is marshalled from the row as the table holds it.
\<close>

definition DataCapture_post ::
  "('f, 'j) platform \<Rightarrow> ('f, 'j) db \<Rightarrow> datetime \<Rightarrow> int \<Rightarrow> 'f data_capture_args \<Rightarrow>
     'f outcome \<times> ('f, 'j) db" where
  "DataCapture_post py d now user_id args =
     (case data_capture_args_parse args of
        Inl m \<Rightarrow> (Abort 400 m, d)
      | Inr (lat, lon, i, o_s) \<Rightarrow>
     (case query_get (users d) user_id of
        Inl e \<Rightarrow> (Raised e, d)
      | Inr None \<Rightarrow> (Abort 404 (Message ''User not found''), d)
      | Inr (Some user) \<Rightarrow>
     (case decode_arg py (touch_interaction_patterns args) of
        Inl e \<Rightarrow> (Raised e, d)
      | Inr touch \<Rightarrow>
     (case decode_arg py (sensor_data args) of
        Inl e \<Rightarrow> (Raised e, d)
      | Inr sensor \<Rightarrow>
          (let data_capture =
                 \<lparr>c_id = next_id (map c_id (captures d)),
                  c_user_id = u_id user,
                  c_latitude = sqlite_real py lat,
                  c_longitude = sqlite_real py lon,
                  c_isp = i,
                  c_os = o_s,
                  c_keystroke_dynamics = keystroke_dynamics args,
                  c_mouse_movement_patterns = mouse_movement_patterns args,
                  c_touch_interaction_patterns = sqlite_json py touch,
                  c_sensor_data = sqlite_json py sensor,
                  c_created_at = now\<rparr>
           in (Reply (Obj (marshal_capture py data_capture)) 201,
               d\<lparr>captures := captures d @ [data_capture]\<rparr>))))))"

text \<open>\<open>StopDataCapture.post\<close>.\<close>

definition StopDataCapture_post ::
  "('f, 'j) db \<Rightarrow> int \<Rightarrow> 'f outcome \<times> ('f, 'j) db" where
  "StopDataCapture_post d user_id =
     (case query_get (users d) user_id of
        Inl e \<Rightarrow> (Raised e, d)
      | Inr None \<Rightarrow> (Abort 404 (Message ''User not found''), d)
      | Inr (Some user) \<Rightarrow>
          (Reply (Obj [(''message'',
                        VString (''Data capture stopped for user '' @ u_username user))]) 200, d))"

text \<open>\<open>GetUserData.get\<close>.\<close>

definition GetUserData_get ::
  "('f, 'j) platform \<Rightarrow> ('f, 'j) db \<Rightarrow> int \<Rightarrow> 'f outcome \<times> ('f, 'j) db" where
  "GetUserData_get py d user_id =
     (case query_get (users d) user_id of
        Inl e \<Rightarrow> (Raised e, d)
      | Inr None \<Rightarrow> (Abort 404 (Message ''User not found''), d)
      | Inr (Some user) \<Rightarrow>
          (Reply (Arr (map (marshal_capture py)
                         (filter (\<lambda>c. c_user_id c = u_id user) (captures d)))) 200, d))"

section \<open>The states the service reaches\<close>

text \<open>
  The database is created empty, and only the five handlers touch it, one request
  after the other.
\<close>

definition empty_db :: "('f, 'j) db" where
  "empty_db = \<lparr>users = [], captures = []\<rparr>"

inductive reachable :: "('f, 'j) platform \<Rightarrow> ('f, 'j) db \<Rightarrow> bool"
  for py :: "('f, 'j) platform" where
  start: "reachable py empty_db"
| register: "reachable py d \<Longrightarrow> reachable py (snd (RegisterUser_post d now args))"
| login: "reachable py d \<Longrightarrow> reachable py (snd (LoginUser_post d args))"
| data_capture:
    "reachable py d \<Longrightarrow> reachable py (snd (DataCapture_post py d now user_id cargs))"
| stop_data_capture: "reachable py d \<Longrightarrow> reachable py (snd (StopDataCapture_post d user_id))"
| get_user_data: "reachable py d \<Longrightarrow> reachable py (snd (GetUserData_get py d user_id))"

section \<open>Data for worked examples\<close>

text \<open>
  A platform for worked examples, with reals for the floats (no NaN among them) and
  the truth values for the decoded JSON: \<open>json.loads\<close> on the texts \<open>null\<close>, \<open>true\<close>
  and \<open>false\<close>, \<open>str\<close> of \<open>True\<close> and \<open>False\<close>, and columns that give back what was
  stored. The theorems below hold for every platform.
\<close>

definition loads_literal :: "string \<Rightarrow> bool option option" where
  "loads_literal s =
     (if s = ''null'' then Some None
      else if s = ''true'' then Some (Some True)
      else if s = ''false'' then Some (Some False)
      else None)"

definition str_bool :: "bool \<Rightarrow> string" where
  "str_bool b = (if b then ''True'' else ''False'')"

definition sample_platform :: "(real, bool) platform" where
  "sample_platform =
     \<lparr>json_loads = loads_literal, py_str = str_bool, sqlite_real = Some,
      sqlite_json = (\<lambda>v. v)\<rparr>"

text \<open>A store: the empty store after one registration.\<close>

definition alice :: user where
  "alice = \<lparr>u_id = 1, u_username = ''alice'', u_password = ''Valid1Pass!'', u_created_at = 7\<rparr>"

definition alice_db :: "(real, bool) db" where
  "alice_db = \<lparr>users = [alice], captures = []\<rparr>"

text \<open>A capture submission, and the row it stores for alice.\<close>

definition sample_args :: "real data_capture_args" where
  "sample_args =
     \<lparr>latitude = Some 12.97, longitude = Some 77.59, isp = Some ''ACT'', os = Some ''Android'',
      keystroke_dynamics = Some ''kd'', mouse_movement_patterns = None,
      touch_interaction_patterns = Some ''true'', sensor_data = None\<rparr>"

definition sample_row :: "(real, bool) capture" where
  "sample_row =
     \<lparr>c_id = 1, c_user_id = 1, c_latitude = Some 12.97, c_longitude = Some 77.59,
      c_isp = ''ACT'', c_os = ''Android'', c_keystroke_dynamics = Some ''kd'',
      c_mouse_movement_patterns = None, c_touch_interaction_patterns = Some True,
      c_sensor_data = None, c_created_at = 9\<rparr>"

section \<open>Lookups in a table\<close>

lemma find_SomeD: "find P xs = Some x \<Longrightarrow> P x \<and> x \<in> set xs"
  by (induction xs) (auto split: if_splits)

lemma find_None_all: "find P xs = None \<longleftrightarrow> (\<forall>x\<in>set xs. \<not> P x)"
  by (induction xs) auto

lemma find_snoc_fresh: "\<forall>x\<in>set xs. \<not> P x \<Longrightarrow> P y \<Longrightarrow> find P (xs @ [y]) = Some y"
  by (induction xs) auto

lemma sint_rowid_range:
  "- 9223372036854775808 \<le> sint (w :: rowid) \<and> sint w \<le> 9223372036854775807"
  using sint_ge [of w] sint_lt [of w] by simp

lemma query_get_in_range:
  "- 9223372036854775808 \<le> user_id \<Longrightarrow> user_id \<le> 9223372036854775807 \<Longrightarrow>
   query_get us user_id = Inr (find (\<lambda>u. sint (u_id u) = user_id) us)"
  by (simp add: query_get_def)

lemma query_get_overflow:
  "9223372036854775807 < user_id \<Longrightarrow> query_get us user_id = Inl OverflowError"
  by (simp add: query_get_def)

lemma query_get_SomeD:
  "query_get us user_id = Inr (Some u) \<Longrightarrow> sint (u_id u) = user_id \<and> u \<in> set us"
  by (auto simp add: query_get_def dest: find_SomeD split: if_splits)

lemma query_get_exists:
  assumes "\<exists>u\<in>set us. sint (u_id u) = user_id"
  shows "\<exists>u. query_get us user_id = Inr (Some u)"
proof -
  from assms obtain v where v: "v \<in> set us" "sint (u_id v) = user_id"
    by blast
  with sint_rowid_range [of "u_id v"]
  have "query_get us user_id = Inr (find (\<lambda>u. sint (u_id u) = user_id) us)"
    by (simp add: query_get_def)
  moreover from v have "find (\<lambda>u. sint (u_id u) = user_id) us \<noteq> None"
    by (auto simp add: find_None_all)
  ultimately show ?thesis
    by auto
qed

lemma query_get_unknown:
  assumes "- 9223372036854775808 \<le> user_id" and "user_id \<le> 9223372036854775807"
    and "\<forall>u\<in>set us. sint (u_id u) \<noteq> user_id"
  shows "query_get us user_id = Inr None"
  using assms by (simp add: query_get_def find_None_all)

section \<open>Registration and login\<close>

lemma register_existing:
  assumes "\<exists>u\<in>set (users d). u_username u = name"
  shows "RegisterUser_post d now \<lparr>username = Some name, password = Some pw\<rparr> =
           (Abort 409 (Message ''Username already exists''), d)"
proof -
  from assms have "find (\<lambda>u. u_username u = name) (users d) \<noteq> None"
    by (simp add: find_None_all)
  then obtain u where "find (\<lambda>u. u_username u = name) (users d) = Some u"
    by blast
  then show ?thesis
    by (simp add: RegisterUser_post_def user_args_parse_def)
qed

lemma register_fresh:
  assumes "\<forall>u\<in>set (users d). u_username u \<noteq> name"
  shows "RegisterUser_post d now \<lparr>username = Some name, password = Some pw\<rparr> =
           (if is_valid_password pw then
              (Reply (Obj (marshal_user \<lparr>u_id = next_id (map u_id (users d)), u_username = name,
                                          u_password = pw, u_created_at = now\<rparr>)) 201,
               d\<lparr>users := users d @ [\<lparr>u_id = next_id (map u_id (users d)), u_username = name,
                                          u_password = pw, u_created_at = now\<rparr>]\<rparr>)
            else (Abort 400 (Message ''Password must be at least 8 characters long, including at least one letter, one number, and one special character.''), d))"
proof -
  from assms have "find (\<lambda>u. u_username u = name) (users d) = None"
    by (simp add: find_None_all)
  then show ?thesis
    by (simp add: RegisterUser_post_def user_args_parse_def Let_def)
qed

lemma login_found:
  assumes "find (\<lambda>u. u_username u = name \<and> u_password u = pw) (users d) = Some u"
  shows "LoginUser_post d \<lparr>username = Some name, password = Some pw\<rparr> =
           (Reply (Obj [(''id'', VInt (sint (u_id u))), (''username'', VString (u_username u)),
                        (''createdAt'', VIso (u_created_at u))]) 200, d)"
  using assms by (simp add: LoginUser_post_def user_args_parse_def)

lemma login_not_found:
  assumes "find (\<lambda>u. u_username u = name \<and> u_password u = pw) (users d) = None"
  shows "LoginUser_post d \<lparr>username = Some name, password = Some pw\<rparr> =
           (Abort 401 (Message ''Invalid credentials''), d)"
  using assms by (simp add: LoginUser_post_def user_args_parse_def)

lemma valid_example: "is_valid_password ''Valid1Pass!''"
  by (simp add: is_valid_password_def lookahead_def letter_def digit_def symbol_def
      allowed_def newline_def)

text \<open>
  Claim C1. When the password passes \<open>is_valid_password\<close> and no stored user has the
  username, the registration request returns 201, and a login request with the same
  username and password, sent to the store the registration left, returns 200 with
  the id that the registration returned.
\<close>

theorem register_then_login:
  assumes "is_valid_password pw" and "\<forall>u\<in>set (users d). u_username u \<noteq> name"
  shows "status (fst (RegisterUser_post d now \<lparr>username = Some name, password = Some pw\<rparr>)) = 201
       \<and> status (fst (LoginUser_post
                        (snd (RegisterUser_post d now \<lparr>username = Some name, password = Some pw\<rparr>))
                        \<lparr>username = Some name, password = Some pw\<rparr>)) = 200
       \<and> field ''id'' (fst (RegisterUser_post d now \<lparr>username = Some name, password = Some pw\<rparr>))
           = Some (VInt (sint (next_id (map u_id (users d)))))
       \<and> field ''id'' (fst (LoginUser_post
                        (snd (RegisterUser_post d now \<lparr>username = Some name, password = Some pw\<rparr>))
                        \<lparr>username = Some name, password = Some pw\<rparr>))
           = Some (VInt (sint (next_id (map u_id (users d)))))"
proof -
  let ?u = "\<lparr>u_id = next_id (map u_id (users d)), u_username = name,
             u_password = pw, u_created_at = now\<rparr>"
  let ?args = "\<lparr>username = Some name, password = Some pw\<rparr>"
  have reg: "RegisterUser_post d now ?args =
               (Reply (Obj (marshal_user ?u)) 201, d\<lparr>users := users d @ [?u]\<rparr>)"
    using assms by (simp add: register_fresh)
  have "\<forall>x\<in>set (users d). \<not> (u_username x = name \<and> u_password x = pw)"
    using assms(2) by blast
  then have "find (\<lambda>u. u_username u = name \<and> u_password u = pw) (users d @ [?u]) = Some ?u"
    by (rule find_snoc_fresh) simp
  then have log: "LoginUser_post (d\<lparr>users := users d @ [?u]\<rparr>) ?args =
               (Reply (Obj [(''id'', VInt (sint (u_id ?u))), (''username'', VString (u_username ?u)),
                        (''createdAt'', VIso (u_created_at ?u))]) 200, d\<lparr>users := users d @ [?u]\<rparr>)"
    by (simp add: login_found)
  show ?thesis
    unfolding reg by (simp add: log marshal_user_def)
qed

theorem register_then_login_witness:
  "is_valid_password ''Valid1Pass!''
   \<and> status (fst (RegisterUser_post (empty_db :: (real, bool) db) 7
                    \<lparr>username = Some ''alice'', password = Some ''Valid1Pass!''\<rparr>)) = 201
   \<and> status (fst (LoginUser_post
                    (snd (RegisterUser_post (empty_db :: (real, bool) db) 7
                            \<lparr>username = Some ''alice'', password = Some ''Valid1Pass!''\<rparr>))
                    \<lparr>username = Some ''alice'', password = Some ''Valid1Pass!''\<rparr>)) = 200
   \<and> field ''id'' (fst (LoginUser_post
                    (snd (RegisterUser_post (empty_db :: (real, bool) db) 7
                            \<lparr>username = Some ''alice'', password = Some ''Valid1Pass!''\<rparr>))
                    \<lparr>username = Some ''alice'', password = Some ''Valid1Pass!''\<rparr>))
       = Some (VInt 1)"
proof -
  have f: "\<forall>u\<in>set (users (empty_db :: (real, bool) db)). u_username u \<noteq> ''alice''"
    by (simp add: empty_db_def)
  show ?thesis
    using register_then_login [OF valid_example f, of 7] valid_example
    by (simp add: empty_db_def next_id_def)
qed

lemma short_example: "\<not> is_valid_password ''short1!''"
  by (simp add: is_valid_password_def lookahead_def letter_def digit_def symbol_def
      allowed_def newline_def)

section \<open>What each handler does to the store\<close>

lemma login_db: "snd (LoginUser_post d args) = d"
  by (simp add: LoginUser_post_def split: sum.splits prod.splits option.splits)

lemma stop_db: "snd (StopDataCapture_post d user_id) = d"
  by (simp add: StopDataCapture_post_def split: sum.splits option.splits)

lemma get_db: "snd (GetUserData_get py d user_id) = d"
  by (simp add: GetUserData_get_def split: sum.splits option.splits)

lemma register_captures: "captures (snd (RegisterUser_post d now args)) = captures d"
  by (simp add: RegisterUser_post_def Let_def split: sum.splits prod.splits option.splits)

lemma register_users_grow: "set (users d) \<subseteq> set (users (snd (RegisterUser_post d now args)))"
  by (auto simp add: RegisterUser_post_def Let_def split: sum.splits prod.splits option.splits)

lemma register_users_distinct:
  "distinct (map u_username (users d)) \<Longrightarrow>
   distinct (map u_username (users (snd (RegisterUser_post d now args))))"
  by (auto simp add: RegisterUser_post_def Let_def find_None_all
      split: sum.splits prod.splits option.splits)

lemma data_capture_users: "users (snd (DataCapture_post py d now user_id args)) = users d"
  by (simp add: DataCapture_post_def Let_def split: sum.splits prod.splits option.splits)

lemma data_capture_captures:
  "c \<in> set (captures (snd (DataCapture_post py d now user_id args))) \<Longrightarrow>
   c \<in> set (captures d) \<or> (\<exists>u\<in>set (users d). u_id u = c_user_id c)"
  by (auto simp add: DataCapture_post_def Let_def dest: query_get_SomeD
      split: sum.splits prod.splits option.splits)

section \<open>Invariants of the reachable stores\<close>

lemma reachable_usernames: "reachable py d \<Longrightarrow> distinct (map u_username (users d))"
proof (induction rule: reachable.induct)
  case start
  show ?case by (simp add: empty_db_def)
next
  case (register d now args)
  then show ?case by (simp add: register_users_distinct)
next
  case (login d args)
  then show ?case by (simp add: login_db)
next
  case (data_capture d now user_id cargs)
  then show ?case by (simp add: data_capture_users)
next
  case (stop_data_capture d user_id)
  then show ?case by (simp add: stop_db)
next
  case (get_user_data d user_id)
  then show ?case by (simp add: get_db)
qed

lemma reachable_references:
  "reachable py d \<Longrightarrow> \<forall>c\<in>set (captures d). \<exists>u\<in>set (users d). u_id u = c_user_id c"
proof (induction rule: reachable.induct)
  case start
  show ?case by (simp add: empty_db_def)
next
  case (register d now args)
  with register_users_grow [of d now args] show ?case
    by (simp add: register_captures) blast
next
  case (login d args)
  then show ?case by (simp add: login_db)
next
  case (data_capture d now user_id cargs)
  show ?case
  proof
    fix c
    assume "c \<in> set (captures (snd (DataCapture_post py d now user_id cargs)))"
    then have "c \<in> set (captures d) \<or> (\<exists>u\<in>set (users d). u_id u = c_user_id c)"
      by (rule data_capture_captures)
    with data_capture.IH
    show "\<exists>u\<in>set (users (snd (DataCapture_post py d now user_id cargs))). u_id u = c_user_id c"
      by (auto simp add: data_capture_users)
  qed
next
  case (stop_data_capture d user_id)
  then show ?case by (simp add: stop_db)
next
  case (get_user_data d user_id)
  then show ?case by (simp add: get_db)
qed

lemma alice_db_register:
  "snd (RegisterUser_post empty_db 7 \<lparr>username = Some ''alice'', password = Some ''Valid1Pass!''\<rparr>)
     = alice_db"
  using valid_example
  by (simp add: register_fresh empty_db_def alice_db_def alice_def next_id_def)

lemma alice_db_reachable: "reachable py alice_db"
proof -
  have "reachable py (snd (RegisterUser_post (empty_db :: (real, bool) db) 7
          \<lparr>username = Some ''alice'', password = Some ''Valid1Pass!''\<rparr>))"
    by (rule reachable.register) (rule reachable.start)
  then show ?thesis
    by (simp only: alice_db_register)
qed

text \<open>
  Claim C2. A registration request for a username that a stored user already has
  returns 409 and leaves the store as it was, and in every store the service reaches
  no two users share a username.
\<close>

theorem username_uniqueness:
  "((\<exists>u\<in>set (users d). u_username u = name) \<longrightarrow>
      RegisterUser_post d now \<lparr>username = Some name, password = Some pw\<rparr> =
        (Abort 409 (Message ''Username already exists''), d))
   \<and> (reachable py d \<longrightarrow> distinct (map u_username (users d)))"
  by (simp add: register_existing reachable_usernames)

theorem username_uniqueness_witness:
  "RegisterUser_post alice_db 8 \<lparr>username = Some ''alice'', password = Some ''Other2Pass?''\<rparr> =
        (Abort 409 (Message ''Username already exists''), alice_db)
   \<and> distinct (map u_username (users alice_db))"
  using username_uniqueness [of alice_db "''alice''" 8 "''Other2Pass?''" sample_platform]
    alice_db_reachable [of sample_platform]
  by (simp add: alice_db_def alice_def)

text \<open>
  Claim C10. The duplicate-username check comes before the password check: a
  registration request for a username that is already stored returns 409 whatever the
  password is, so never the 400 of a password that violates the policy.
\<close>

theorem duplicate_check_precedes_password_check:
  assumes "\<exists>u\<in>set (users d). u_username u = name"
  shows "status (fst (RegisterUser_post d now \<lparr>username = Some name, password = Some pw\<rparr>)) = 409
       \<and> status (fst (RegisterUser_post d now \<lparr>username = Some name, password = Some pw\<rparr>)) \<noteq> 400
       \<and> snd (RegisterUser_post d now \<lparr>username = Some name, password = Some pw\<rparr>) = d"
  using assms by (simp add: register_existing)

theorem duplicate_check_precedes_password_check_witness:
  "\<not> is_valid_password ''short1!''
   \<and> status (fst (RegisterUser_post alice_db 8
                    \<lparr>username = Some ''alice'', password = Some ''short1!''\<rparr>)) = 409"
proof -
  have "\<exists>u\<in>set (users alice_db). u_username u = ''alice''"
    by (simp add: alice_db_def alice_def)
  from duplicate_check_precedes_password_check [OF this, of 8 "''short1!''"] short_example
  show ?thesis by simp
qed

text \<open>
  Claim C5. A login request that carries a username and a password returns 200 exactly
  when some stored user has this username and this password, character for
  character. The body then has the three fields id, username and createdAt of such a
  user, createdAt in ISO 8601 form. Otherwise the request is aborted with 401; so it
  is for a stored username with a wrong password.
\<close>

theorem login_iff_credentials:
  "(status (fst (LoginUser_post d \<lparr>username = Some name, password = Some pw\<rparr>)) = 200 \<longleftrightarrow>
      (\<exists>u\<in>set (users d). u_username u = name \<and> u_password u = pw))
   \<and> ((\<exists>u\<in>set (users d). u_username u = name \<and> u_password u = pw) \<longrightarrow>
        (\<exists>u\<in>set (users d). u_username u = name \<and> u_password u = pw \<and>
           LoginUser_post d \<lparr>username = Some name, password = Some pw\<rparr> =
             (Reply (Obj [(''id'', VInt (sint (u_id u))), (''username'', VString name),
                          (''createdAt'', VIso (u_created_at u))]) 200, d)))
   \<and> (\<not> (\<exists>u\<in>set (users d). u_username u = name \<and> u_password u = pw) \<longrightarrow>
        LoginUser_post d \<lparr>username = Some name, password = Some pw\<rparr> =
          (Abort 401 (Message ''Invalid credentials''), d))"
proof (cases "find (\<lambda>u. u_username u = name \<and> u_password u = pw) (users d)")
  case None
  then have "\<not> (\<exists>u\<in>set (users d). u_username u = name \<and> u_password u = pw)"
    by (simp add: find_None_all)
  with None show ?thesis
    by (simp add: login_not_found)
next
  case (Some u)
  from find_SomeD [OF Some] have u: "u \<in> set (users d)" "u_username u = name" "u_password u = pw"
    by simp_all
  from Some have "LoginUser_post d \<lparr>username = Some name, password = Some pw\<rparr> =
      (Reply (Obj [(''id'', VInt (sint (u_id u))), (''username'', VString name),
                   (''createdAt'', VIso (u_created_at u))]) 200, d)"
    by (simp add: login_found u)
  with u show ?thesis by auto
qed

theorem login_iff_credentials_witness:
  "LoginUser_post alice_db \<lparr>username = Some ''alice'', password = Some ''Valid1Pass!''\<rparr> =
     (Reply (Obj [(''id'', VInt 1), (''username'', VString ''alice''), (''createdAt'', VIso 7)]) 200,
      alice_db)
   \<and> LoginUser_post alice_db \<lparr>username = Some ''alice'', password = Some ''Wrong1Pass!''\<rparr> =
     (Abort 401 (Message ''Invalid credentials''), alice_db)"
  using login_iff_credentials [of alice_db "''alice''" "''Valid1Pass!''"]
    login_iff_credentials [of alice_db "''alice''" "''Wrong1Pass!''"]
  by (simp add: alice_db_def alice_def)


section \<open>The handlers under a user id\<close>

text \<open>
  Claim C8. The stop-data-capture handler leaves the store, both tables, as it was,
  for every request. When a user with the id of the path exists, it returns 200 with
  the message that ends in this user's username.
\<close>

theorem stop_data_capture_no_mutation:
  "snd (StopDataCapture_post d user_id) = d
   \<and> ((\<exists>u\<in>set (users d). sint (u_id u) = user_id) \<longrightarrow>
        (\<exists>u\<in>set (users d). sint (u_id u) = user_id \<and>
           fst (StopDataCapture_post d user_id) =
             Reply (Obj [(''message'',
                          VString (''Data capture stopped for user '' @ u_username u))]) 200))"
proof (cases "\<exists>u\<in>set (users d). sint (u_id u) = user_id")
  case False
  then show ?thesis
    by (simp add: stop_db)
next
  case True
  then obtain u where u: "query_get (users d) user_id = Inr (Some u)"
    using query_get_exists by blast
  from query_get_SomeD [OF u] have "u \<in> set (users d)" "sint (u_id u) = user_id"
    by simp_all
  moreover from u have "fst (StopDataCapture_post d user_id) =
      Reply (Obj [(''message'', VString (''Data capture stopped for user '' @ u_username u))]) 200"
    by (simp add: StopDataCapture_post_def)
  ultimately show ?thesis
    by (auto simp add: stop_db)
qed

theorem stop_data_capture_no_mutation_witness:
  "StopDataCapture_post alice_db 1 =
     (Reply (Obj [(''message'', VString ''Data capture stopped for user alice'')]) 200, alice_db)"
  using stop_data_capture_no_mutation [of alice_db 1]
  by (simp add: alice_db_def alice_def prod_eq_iff)

section \<open>Unknown users and stored captures\<close>

lemma data_capture_parse_error:
  "data_capture_args_parse args = Inl m \<Longrightarrow>
   DataCapture_post py d now user_id args = (Abort 400 m, d)"
  by (simp add: DataCapture_post_def)

lemma data_capture_unknown_user:
  assumes "data_capture_args_parse args = Inr p" and "query_get (users d) user_id = Inr None"
  shows "DataCapture_post py d now user_id args = (Abort 404 (Message ''User not found''), d)"
  using assms by (simp add: DataCapture_post_def split: prod.splits)

text \<open>
  A user id of the path that does not fit 64 bits: the lookup raises, which ends the
  request with 500 and without a write.
\<close>

lemma user_id_overflow:
  assumes "9223372036854775807 < user_id"
  shows "StopDataCapture_post d user_id = (Raised OverflowError, d)"
    and "GetUserData_get py d user_id = (Raised OverflowError, d)"
    and "data_capture_args_parse args = Inr p \<Longrightarrow>
         DataCapture_post py d now user_id args = (Raised OverflowError, d)"
  using assms
  by (simp_all add: StopDataCapture_post_def GetUserData_get_def DataCapture_post_def
      query_get_overflow split: prod.splits)

text \<open>
  Claim C6, as it is stated, fails for the data-capture submission: the handler parses
  the body before it looks the user up, so a request without latitude for a user id
  that no user has is aborted with 400, not 404.
\<close>

theorem unknown_user_counterexample:
  "users (empty_db :: (real, bool) db) = []
   \<and> status (fst (DataCapture_post sample_platform empty_db 7 9999
        \<lparr>latitude = None, longitude = Some 77.59, isp = Some ''ACT'', os = Some ''Android'',
         keystroke_dynamics = None, mouse_movement_patterns = None,
         touch_interaction_patterns = None, sensor_data = None\<rparr>)) = 400
   \<and> status (fst (DataCapture_post sample_platform empty_db 7 9999
        \<lparr>latitude = None, longitude = Some 77.59, isp = Some ''ACT'', os = Some ''Android'',
         keystroke_dynamics = None, mouse_movement_patterns = None,
         touch_interaction_patterns = None, sensor_data = None\<rparr>)) \<noteq> 404"
  by (simp add: DataCapture_post_def data_capture_args_parse_def empty_db_def)

text \<open>
  Claim C6, amended. For a user id that fits a signed 64-bit integer and that no stored
  user has, the stop-data-capture handler and the data-retrieval handler abort with
  404, and so does the data-capture submission when latitude, longitude, isp and os
  are all present; when the parser refuses the body, the submission is aborted with
  the parser's 400 instead, whatever the user id. None of the three changes the store.
\<close>

theorem unknown_user_not_found:
  assumes "\<forall>u\<in>set (users d). sint (u_id u) \<noteq> user_id"
    and "- 9223372036854775808 \<le> user_id" and "user_id \<le> 9223372036854775807"
  shows "StopDataCapture_post d user_id = (Abort 404 (Message ''User not found''), d)
       \<and> GetUserData_get py d user_id = (Abort 404 (Message ''User not found''), d)
       \<and> DataCapture_post py d now user_id
            \<lparr>latitude = Some lat, longitude = Some lon, isp = Some i, os = Some o_s,
             keystroke_dynamics = k, mouse_movement_patterns = m,
             touch_interaction_patterns = t, sensor_data = s\<rparr>
           = (Abort 404 (Message ''User not found''), d)
       \<and> (\<forall>e. data_capture_args_parse args = Inl e \<longrightarrow>
             DataCapture_post py d now user_id args = (Abort 400 e, d))"
proof -
  from assms have none: "query_get (users d) user_id = Inr None"
    by (simp add: query_get_unknown)
  have "data_capture_args_parse
          \<lparr>latitude = Some lat, longitude = Some lon, isp = Some i, os = Some o_s,
           keystroke_dynamics = k, mouse_movement_patterns = m,
           touch_interaction_patterns = t, sensor_data = s\<rparr> = Inr (lat, lon, i, o_s)"
    by (simp add: data_capture_args_parse_def)
  then have "DataCapture_post py d now user_id
            \<lparr>latitude = Some lat, longitude = Some lon, isp = Some i, os = Some o_s,
             keystroke_dynamics = k, mouse_movement_patterns = m,
             touch_interaction_patterns = t, sensor_data = s\<rparr>
           = (Abort 404 (Message ''User not found''), d)"
    using none by (rule data_capture_unknown_user)
  with none show ?thesis
    by (simp add: StopDataCapture_post_def GetUserData_get_def data_capture_parse_error)
qed

theorem unknown_user_not_found_witness:
  "StopDataCapture_post alice_db 9999 = (Abort 404 (Message ''User not found''), alice_db)
   \<and> GetUserData_get sample_platform alice_db 9999
       = (Abort 404 (Message ''User not found''), alice_db)
   \<and> DataCapture_post sample_platform alice_db 9 9999
        \<lparr>latitude = Some 12.97, longitude = Some 77.59, isp = Some ''ACT'', os = Some ''Android'',
         keystroke_dynamics = None, mouse_movement_patterns = None,
         touch_interaction_patterns = None, sensor_data = None\<rparr>
       = (Abort 404 (Message ''User not found''), alice_db)
   \<and> DataCapture_post sample_platform alice_db 9 9999
        \<lparr>latitude = None, longitude = Some 77.59, isp = Some ''ACT'', os = Some ''Android'',
         keystroke_dynamics = None, mouse_movement_patterns = None,
         touch_interaction_patterns = None, sensor_data = None\<rparr>
       = (Abort 400 (Argument_error ''latitude'' (Some ''Latitude is required'')), alice_db)"
proof -
  have h: "\<forall>u\<in>set (users alice_db). sint (u_id u) \<noteq> 9999"
    by (simp add: alice_db_def alice_def)
  have lo: "- 9223372036854775808 \<le> (9999 :: int)" and hi: "(9999 :: int) \<le> 9223372036854775807"
    by simp_all
  from unknown_user_not_found [OF h lo hi, of sample_platform 9 "12.97" "77.59" "''ACT''"
      "''Android''" None None None None
      "\<lparr>latitude = None, longitude = Some 77.59, isp = Some ''ACT'', os = Some ''Android'',
         keystroke_dynamics = None, mouse_movement_patterns = None,
         touch_interaction_patterns = None, sensor_data = None\<rparr>"]
  show ?thesis
    by (simp add: data_capture_args_parse_def)
qed

lemma data_capture_success:
  assumes "data_capture_args_parse args = Inr (lat, lon, i, o_s)"
    and "query_get (users d) user_id = Inr (Some user)"
    and "decode_arg py (touch_interaction_patterns args) = Inr touch"
    and "decode_arg py (sensor_data args) = Inr sensor"
  shows "DataCapture_post py d now user_id args =
           (Reply (Obj (marshal_capture py
              \<lparr>c_id = next_id (map c_id (captures d)), c_user_id = u_id user,
               c_latitude = sqlite_real py lat, c_longitude = sqlite_real py lon,
               c_isp = i, c_os = o_s,
               c_keystroke_dynamics = keystroke_dynamics args,
               c_mouse_movement_patterns = mouse_movement_patterns args,
               c_touch_interaction_patterns = sqlite_json py touch,
               c_sensor_data = sqlite_json py sensor,
               c_created_at = now\<rparr>)) 201,
            d\<lparr>captures := captures d @
              [\<lparr>c_id = next_id (map c_id (captures d)), c_user_id = u_id user,
               c_latitude = sqlite_real py lat, c_longitude = sqlite_real py lon,
               c_isp = i, c_os = o_s,
               c_keystroke_dynamics = keystroke_dynamics args,
               c_mouse_movement_patterns = mouse_movement_patterns args,
               c_touch_interaction_patterns = sqlite_json py touch,
               c_sensor_data = sqlite_json py sensor,
               c_created_at = now\<rparr>]\<rparr>)"
  using assms by (simp add: DataCapture_post_def Let_def)

lemma data_capture_cases:
  "(\<exists>row. DataCapture_post py d now user_id args =
            (Reply (Obj (marshal_capture py row)) 201, d\<lparr>captures := captures d @ [row]\<rparr>)
          \<and> sint (c_user_id row) = user_id \<and> (\<exists>u\<in>set (users d). u_id u = c_user_id row))
   \<or> (status (fst (DataCapture_post py d now user_id args)) \<noteq> 201
      \<and> snd (DataCapture_post py d now user_id args) = d)"
proof (cases "data_capture_args_parse args")
  case (Inl m)
  then show ?thesis
    by (simp add: DataCapture_post_def)
next
  case (Inr p)
  obtain lat lon i o_s where p: "p = (lat, lon, i, o_s)"
    by (cases p) auto
  show ?thesis
  proof (cases "query_get (users d) user_id")
    case (Inl e)
    with Inr p show ?thesis
      by (simp add: DataCapture_post_def)
  next
    case found: (Inr found)
    show ?thesis
    proof (cases found)
      case None
      with Inr p found show ?thesis
        by (simp add: DataCapture_post_def)
    next
      case (Some user)
      with found have user: "query_get (users d) user_id = Inr (Some user)"
        by simp
      show ?thesis
      proof (cases "decode_arg py (touch_interaction_patterns args)")
        case (Inl e)
        with Inr p user show ?thesis
          by (simp add: DataCapture_post_def)
      next
        case touch: (Inr touch)
        show ?thesis
        proof (cases "decode_arg py (sensor_data args)")
          case (Inl e)
          with Inr p user touch show ?thesis
            by (simp add: DataCapture_post_def)
        next
          case sensor: (Inr sensor)
          let ?row = "\<lparr>c_id = next_id (map c_id (captures d)), c_user_id = u_id user,
               c_latitude = sqlite_real py lat, c_longitude = sqlite_real py lon,
               c_isp = i, c_os = o_s,
               c_keystroke_dynamics = keystroke_dynamics args,
               c_mouse_movement_patterns = mouse_movement_patterns args,
               c_touch_interaction_patterns = sqlite_json py touch,
               c_sensor_data = sqlite_json py sensor,
               c_created_at = now\<rparr>"
          have "DataCapture_post py d now user_id args =
              (Reply (Obj (marshal_capture py ?row)) 201, d\<lparr>captures := captures d @ [?row]\<rparr>)"
            by (rule data_capture_success [OF Inr [unfolded p] user touch sensor])
          moreover from query_get_SomeD [OF user]
          have "sint (c_user_id ?row) = user_id" and "\<exists>u\<in>set (users d). u_id u = c_user_id ?row"
            by auto
          ultimately show ?thesis
            by blast
        qed
      qed
    qed
  qed
qed

text \<open>
  Claim C7. A data-capture submission that returns 201 appends one row whose user_id is
  the id of a user stored at that moment, and a submission that does not return 201
  leaves the store as it was. A registration removes no user. So in every store the
  service reaches, every capture row refers to a stored user.
\<close>

theorem capture_references_user:
  "(status (fst (DataCapture_post py d now user_id args)) = 201 \<longrightarrow>
      (\<exists>row. snd (DataCapture_post py d now user_id args) = d\<lparr>captures := captures d @ [row]\<rparr>
            \<and> (\<exists>u\<in>set (users d). u_id u = c_user_id row)))
   \<and> (status (fst (DataCapture_post py d now user_id args)) \<noteq> 201 \<longrightarrow>
        snd (DataCapture_post py d now user_id args) = d)
   \<and> set (users d) \<subseteq> set (users (snd (RegisterUser_post d now uargs)))
   \<and> (reachable py d \<longrightarrow> (\<forall>c\<in>set (captures d). \<exists>u\<in>set (users d). u_id u = c_user_id c))"
proof -
  from data_capture_cases [of py d now user_id args]
  have "(status (fst (DataCapture_post py d now user_id args)) = 201 \<longrightarrow>
      (\<exists>row. snd (DataCapture_post py d now user_id args) = d\<lparr>captures := captures d @ [row]\<rparr>
            \<and> (\<exists>u\<in>set (users d). u_id u = c_user_id row)))
   \<and> (status (fst (DataCapture_post py d now user_id args)) \<noteq> 201 \<longrightarrow>
        snd (DataCapture_post py d now user_id args) = d)"
    by auto
  then show ?thesis
    by (simp add: register_users_grow reachable_references)
qed

lemma sample_capture:
  "DataCapture_post sample_platform alice_db 9 1 sample_args =
     (Reply (Obj (marshal_capture sample_platform sample_row)) 201,
      alice_db\<lparr>captures := [sample_row]\<rparr>)"
  by (simp add: DataCapture_post_def data_capture_args_parse_def decode_arg_def query_get_def
      loads_literal_def sample_platform_def sample_args_def sample_row_def alice_db_def
      alice_def next_id_def Let_def)

theorem capture_references_user_witness:
  "status (fst (DataCapture_post sample_platform alice_db 9 1 sample_args)) = 201
   \<and> map c_user_id (captures (snd (DataCapture_post sample_platform alice_db 9 1 sample_args))) = [1]
   \<and> map u_id (users alice_db) = [1]
   \<and> captures alice_db = []"
  using capture_references_user [of sample_platform alice_db 9 1 sample_args
      "\<lparr>username = Some ''alice'', password = Some ''Valid1Pass!''\<rparr>"]
    alice_db_reachable [of sample_platform]
  by (simp add: sample_capture) (simp add: sample_row_def alice_db_def alice_def)

section \<open>Data retrieval\<close>






section \<open>The regular expression and the policy in words\<close>

lemma newline_not_allowed: "\<not> allowed newline"
  by (simp add: allowed_def letter_def digit_def symbol_def newline_def)

lemma takeWhile_all: "list_all P xs \<Longrightarrow> takeWhile P xs = xs"
  by (induction xs) auto

lemma dropWhile_all: "list_all P xs \<Longrightarrow> dropWhile P xs = []"
  by (induction xs) auto

lemma allowed_no_newline: "list_all allowed p \<Longrightarrow> list_all (\<lambda>c. c \<noteq> newline) p"
  using newline_not_allowed by (induction p) auto

lemma lookahead_line: "list_all (\<lambda>c. c \<noteq> newline) p \<Longrightarrow> lookahead cls p = list_ex cls p"
  by (simp add: lookahead_def takeWhile_all)

lemma lookahead_line_newline:
  "list_all (\<lambda>c. c \<noteq> newline) p \<Longrightarrow> lookahead cls (p @ [newline]) = list_ex cls p"
  by (simp add: lookahead_def takeWhile_append2 list_all_iff)

lemma takeWhile_snoc_stop: "list_all P p \<Longrightarrow> \<not> P x \<Longrightarrow> takeWhile P (p @ [x]) = p"
  by (induction p) auto

lemma dropWhile_snoc_stop: "list_all P p \<Longrightarrow> \<not> P x \<Longrightarrow> dropWhile P (p @ [x]) = [x]"
  by (induction p) auto

lemma policy_is_valid: "password_policy p \<Longrightarrow> is_valid_password p"
  by (simp add: password_policy_def is_valid_password_def takeWhile_all dropWhile_all
      lookahead_line allowed_no_newline)

lemma policy_newline_is_valid: "password_policy p \<Longrightarrow> is_valid_password (p @ [newline])"
  using newline_not_allowed
  by (simp add: password_policy_def is_valid_password_def takeWhile_snoc_stop
      dropWhile_snoc_stop lookahead_line_newline allowed_no_newline Let_def)

text \<open>
  The regular expression against the policy in words: they agree on every password but
  those that end in a line feed, where the expression also accepts a password that
  obeys the policy up to this last line feed.
\<close>

lemma is_valid_password_iff:
  "is_valid_password pw \<longleftrightarrow>
     password_policy pw \<or> (\<exists>p. pw = p @ [newline] \<and> password_policy p)"
proof
  assume v: "is_valid_password pw"
  let ?run = "takeWhile allowed pw"
  have run: "list_all allowed ?run"
    by (simp add: list_all_iff) (meson set_takeWhileD)
  from v have len: "8 \<le> length ?run"
    by (simp add: is_valid_password_def Let_def)
  from v have rest: "dropWhile allowed pw = [] \<or> dropWhile allowed pw = [newline]"
    by (simp add: is_valid_password_def Let_def)
  have split: "pw = ?run @ dropWhile allowed pw"
    by simp
  from rest show "password_policy pw \<or> (\<exists>p. pw = p @ [newline] \<and> password_policy p)"
  proof
    assume "dropWhile allowed pw = []"
    with split have pw: "pw = ?run" by simp
    with run have all: "list_all allowed pw" by simp
    with v len pw show ?thesis
      by (simp add: is_valid_password_def password_policy_def lookahead_line allowed_no_newline)
  next
    assume "dropWhile allowed pw = [newline]"
    with split have pw: "pw = ?run @ [newline]" by simp
    from v have "lookahead letter (?run @ [newline])" "lookahead digit (?run @ [newline])"
      "lookahead symbol (?run @ [newline])"
      unfolding is_valid_password_def using pw by simp_all
    with run len have "password_policy ?run"
      by (simp add: password_policy_def lookahead_line_newline allowed_no_newline)
    with pw show ?thesis by blast
  qed
next
  assume "password_policy pw \<or> (\<exists>p. pw = p @ [newline] \<and> password_policy p)"
  then show "is_valid_password pw"
    by (auto intro: policy_is_valid policy_newline_is_valid)
qed

lemma policy_no_newline: "password_policy pw \<Longrightarrow> newline \<notin> set pw"
  using newline_not_allowed by (auto simp add: password_policy_def list_all_iff)

lemma is_valid_password_no_newline:
  "newline \<notin> set pw \<Longrightarrow> is_valid_password pw \<longleftrightarrow> password_policy pw"
  by (auto simp add: is_valid_password_iff)

text \<open>The three passwords the specification names.\<close>

lemma password_examples:
  "\<not> is_valid_password ''short1!''"
  "\<not> is_valid_password ''alllettersnouppercasenodigit''"
  "is_valid_password ''Valid1Pass!''"
  by (simp_all add: is_valid_password_def lookahead_def letter_def digit_def symbol_def
      allowed_def newline_def)

text \<open>
  For a username that no stored user has, the registration handler answers by the
  regular expression alone: 201 when the password matches, 400 when it does not.
\<close>

lemma register_checks_password:
  assumes "\<forall>u\<in>set (users d). u_username u \<noteq> name"
  shows "status (fst (RegisterUser_post d now \<lparr>username = Some name, password = Some pw\<rparr>))
           = (if is_valid_password pw then 201 else 400)"
  by (simp add: register_fresh [OF assms])

text \<open>
  Claim C3 says that a password is accepted only if all its characters are letters,
  digits or symbols of the fixed set. The code departs from it at a password that ends
  in a line feed: the registration below is answered with 201 and stores the password,
  although the line feed is in none of the classes.
\<close>

theorem trailing_newline_accepted:
  "\<not> password_policy (''Valid1Pass!'' @ [newline])
   \<and> is_valid_password (''Valid1Pass!'' @ [newline])
   \<and> RegisterUser_post (empty_db :: (real, bool) db) 7
        \<lparr>username = Some ''bob'', password = Some (''Valid1Pass!'' @ [newline])\<rparr>
      = (Reply (Obj [(''id'', VInt 1), (''username'', VString ''bob''),
                     (''password'', VString (''Valid1Pass!'' @ [newline])),
                     (''created_at'', VRfc822 7)]) 201,
         \<lparr>users = [\<lparr>u_id = 1, u_username = ''bob'',
                     u_password = ''Valid1Pass!'' @ [newline], u_created_at = 7\<rparr>],
          captures = []\<rparr>)"
proof -
  have v: "is_valid_password (''Valid1Pass!'' @ [newline])"
    by (simp add: is_valid_password_def lookahead_def letter_def digit_def symbol_def
        allowed_def newline_def)
  have p: "\<not> password_policy (''Valid1Pass!'' @ [newline])"
    by (simp add: password_policy_def letter_def digit_def symbol_def allowed_def newline_def)
  have f: "\<forall>u\<in>set (users (empty_db :: (real, bool) db)). u_username u \<noteq> ''bob''"
    by (simp add: empty_db_def)
  from register_fresh [OF f, of 7 "''Valid1Pass!'' @ [newline]"] v
  have "RegisterUser_post (empty_db :: (real, bool) db) 7
        \<lparr>username = Some ''bob'', password = Some (''Valid1Pass!'' @ [newline])\<rparr>
      = (Reply (Obj (marshal_user \<lparr>u_id = next_id (map u_id (users (empty_db :: (real, bool) db))),
                      u_username = ''bob'', u_password = ''Valid1Pass!'' @ [newline],
                      u_created_at = 7\<rparr>)) 201,
         empty_db\<lparr>users := users (empty_db :: (real, bool) db) @
            [\<lparr>u_id = next_id (map u_id (users (empty_db :: (real, bool) db))),
                      u_username = ''bob'', u_password = ''Valid1Pass!'' @ [newline],
                      u_created_at = 7\<rparr>]\<rparr>)"
    by (simp only: if_True)
  with v p show ?thesis
    by (simp add: marshal_user_def empty_db_def next_id_def)
qed

section \<open>Malformed JSON arguments\<close>

lemma decode_arg_empty: "decode_arg py (Some []) = Inr None"
  by (simp add: decode_arg_def)

lemma decode_arg_malformed:
  "x \<noteq> [] \<Longrightarrow> json_loads py x = None \<Longrightarrow> decode_arg py (Some x) = Inl JSONDecodeError"
  by (simp add: decode_arg_def)

lemma decode_arg_error: "decode_arg py a = Inl e \<Longrightarrow> e = JSONDecodeError"
  by (auto simp add: decode_arg_def split: option.splits if_splits)

text \<open>
  Claim C4 says that a submission for an existing user with a JSON argument that does
  not decode is answered with a client error and stores nothing. In the code the
  exception of \<open>json.loads\<close> leaves the handler: the store is unchanged, but the
  response is the 500 of an unhandled exception.
\<close>

theorem malformed_json_raises:
  assumes "\<exists>u\<in>set (users d). sint (u_id u) = user_id"
    and "(\<exists>x. t = Some x \<and> x \<noteq> [] \<and> json_loads py x = None)
       \<or> (\<exists>x. s = Some x \<and> x \<noteq> [] \<and> json_loads py x = None)"
  shows "DataCapture_post py d now user_id
           \<lparr>latitude = Some lat, longitude = Some lon, isp = Some i, os = Some o_s,
            keystroke_dynamics = k, mouse_movement_patterns = m,
            touch_interaction_patterns = t, sensor_data = s\<rparr>
         = (Raised JSONDecodeError, d)
       \<and> status (fst (DataCapture_post py d now user_id
           \<lparr>latitude = Some lat, longitude = Some lon, isp = Some i, os = Some o_s,
            keystroke_dynamics = k, mouse_movement_patterns = m,
            touch_interaction_patterns = t, sensor_data = s\<rparr>)) = 500"
proof -
  let ?args = "\<lparr>latitude = Some lat, longitude = Some lon, isp = Some i, os = Some o_s,
            keystroke_dynamics = k, mouse_movement_patterns = m,
            touch_interaction_patterns = t, sensor_data = s\<rparr>"
  from assms(1) obtain u where u: "query_get (users d) user_id = Inr (Some u)"
    using query_get_exists by blast
  have parse: "data_capture_args_parse ?args = Inr (lat, lon, i, o_s)"
    by (simp add: data_capture_args_parse_def)
  from assms(2)
  have bad: "decode_arg py t = Inl JSONDecodeError \<or> decode_arg py s = Inl JSONDecodeError"
    by (auto simp add: decode_arg_malformed)
  have "DataCapture_post py d now user_id ?args = (Raised JSONDecodeError, d)"
  proof (cases "decode_arg py t")
    case (Inl e)
    with decode_arg_error [OF Inl] parse u show ?thesis
      by (simp add: DataCapture_post_def)
  next
    case (Inr touch)
    with bad have "decode_arg py s = Inl JSONDecodeError"
      by simp
    with Inr parse u show ?thesis
      by (simp add: DataCapture_post_def)
  qed
  then show ?thesis
    by simp
qed

theorem malformed_json_raises_witness:
  "json_loads sample_platform ''{not valid json'' = None
   \<and> DataCapture_post sample_platform alice_db 9 1
        \<lparr>latitude = Some 12.97, longitude = Some 77.59, isp = Some ''ACT'', os = Some ''Android'',
         keystroke_dynamics = None, mouse_movement_patterns = None,
         touch_interaction_patterns = Some ''{not valid json'', sensor_data = None\<rparr>
       = (Raised JSONDecodeError, alice_db)
   \<and> status (fst (DataCapture_post sample_platform alice_db 9 1
        \<lparr>latitude = Some 12.97, longitude = Some 77.59, isp = Some ''ACT'', os = Some ''Android'',
         keystroke_dynamics = None, mouse_movement_patterns = None,
         touch_interaction_patterns = Some ''{not valid json'', sensor_data = None\<rparr>)) = 500"
proof -
  have h: "\<exists>u\<in>set (users alice_db). sint (u_id u) = 1"
    by (simp add: alice_db_def alice_def)
  have l: "json_loads sample_platform ''{not valid json'' = None"
    by (simp add: sample_platform_def loads_literal_def)
  then have b: "(\<exists>x. Some ''{not valid json'' = Some x \<and> x \<noteq> [] \<and> json_loads sample_platform x = None)
       \<or> (\<exists>x. (None :: string option) = Some x \<and> x \<noteq> [] \<and> json_loads sample_platform x = None)"
    by simp
  from malformed_json_raises [OF h b, of 9 "12.97" "77.59" "''ACT''" "''Android''" None None] l
  show ?thesis
    by simp
qed

section \<open>Further worked examples\<close>

text \<open>The character classes at their borders.\<close>

lemma character_classes:
  "letter CHR ''A''" "letter CHR ''Z''" "letter CHR ''a''" "letter CHR ''z''"
  "\<not> letter CHR ''@''" "\<not> letter CHR ''[''" "\<not> letter (CHR 0x60)" "\<not> letter CHR ''{''"
  "digit CHR ''0''" "digit CHR ''9''" "\<not> digit CHR ''/''" "\<not> digit CHR '':''"
  "symbol CHR ''@''" "symbol CHR ''$''" "symbol CHR ''!''" "symbol CHR ''%''"
  "symbol CHR ''*''" "symbol CHR ''?''" "symbol CHR ''&''"
  "\<not> symbol CHR ''#''" "\<not> allowed CHR '' ''" "\<not> allowed CHR ''_''"
  by (simp_all add: letter_def digit_def symbol_def allowed_def)

text \<open>A request that lacks a required argument is aborted by the parser with 400.\<close>

lemma missing_arguments:
  "RegisterUser_post d now \<lparr>username = None, password = p\<rparr>
     = (Abort 400 (Argument_error ''username'' (Some ''Username is required'')), d)"
  "RegisterUser_post d now \<lparr>username = Some n, password = None\<rparr>
     = (Abort 400 (Argument_error ''password'' (Some ''Password is required'')), d)"
  "LoginUser_post d \<lparr>username = None, password = p\<rparr>
     = (Abort 400 (Argument_error ''username'' (Some ''Username is required'')), d)"
  "LoginUser_post d \<lparr>username = Some n, password = None\<rparr>
     = (Abort 400 (Argument_error ''password'' (Some ''Password is required'')), d)"
  by (simp_all add: RegisterUser_post_def LoginUser_post_def user_args_parse_def)

lemma missing_capture_arguments:
  "data_capture_args_parse (a\<lparr>latitude := None\<rparr>)
     = Inl (Argument_error ''latitude'' (Some ''Latitude is required''))"
  "data_capture_args_parse (a\<lparr>latitude := Some x, longitude := None\<rparr>)
     = Inl (Argument_error ''longitude'' (Some ''Longitude is required''))"
  "data_capture_args_parse (a\<lparr>latitude := Some x, longitude := Some y, isp := None\<rparr>)
     = Inl (Argument_error ''isp'' None)"
  "data_capture_args_parse (a\<lparr>latitude := Some x, longitude := Some y, isp := Some i, os := None\<rparr>)
     = Inl (Argument_error ''os'' None)"
  by (simp_all add: data_capture_args_parse_def)

text \<open>The second registration gets the next key.\<close>

lemma second_registration:
  "RegisterUser_post alice_db 8 \<lparr>username = Some ''bob'', password = Some ''Other2Pass?''\<rparr>
     = (Reply (Obj [(''id'', VInt 2), (''username'', VString ''bob''),
                    (''password'', VString ''Other2Pass?''), (''created_at'', VRfc822 8)]) 201,
        \<lparr>users = [alice, \<lparr>u_id = 2, u_username = ''bob'', u_password = ''Other2Pass?'',
                            u_created_at = 8\<rparr>],
         captures = []\<rparr>)"
proof -
  have v: "is_valid_password ''Other2Pass?''"
    by (simp add: is_valid_password_def lookahead_def letter_def digit_def symbol_def
        allowed_def newline_def)
  have f: "\<forall>u\<in>set (users alice_db). u_username u \<noteq> ''bob''"
    by (simp add: alice_db_def alice_def)
  have n: "next_id (map u_id (users alice_db)) = 2"
    by (simp add: next_id_def alice_db_def alice_def)
  from v n show ?thesis
    by (simp add: register_fresh [OF f] marshal_user_def) (simp add: alice_db_def)
qed

text \<open>A user id beyond 64 bits, on a store with one user.\<close>

lemma overflow_example:
  "StopDataCapture_post alice_db 9223372036854775808 = (Raised OverflowError, alice_db)"
  "status (fst (GetUserData_get sample_platform alice_db 9223372036854775808)) = 500"
  "StopDataCapture_post alice_db 9223372036854775807
     = (Abort 404 (Message ''User not found''), alice_db)"
  by (simp_all add: StopDataCapture_post_def GetUserData_get_def query_get_def
      alice_db_def alice_def)

end
